theory Spec2Isabelle
  imports Complex_Main "HOL-Library.Sublist"
begin

section \<open>Data model\<close>

text \<open>
  The program is \<^verbatim>\<open>extract_street_data.py\<close>. Coordinates are Python floats; they are
  modelled as real numbers, so every statement below is about the arithmetic the code
  writes down, not about rounding. The one division whose rounding and overflow decide
  what is drawn, the quotient that gives the canvas scale, is not computed in the reals
  but kept as a parameter. The third-party operations the code calls (shapely's
  \<^verbatim>\<open>intersects\<close> and \<^verbatim>\<open>centroid\<close>, pyproj's transformer, Python's \<^verbatim>\<open>str\<close>,
  the geocoder, the file system) are parameters of the functions that call them.
\<close>

type_synonym point = "real \<times> real"

text \<open>
  The shapely geometry kinds with two-dimensional coordinates. A polygon is its exterior
  ring and its interior rings. \<^verbatim>\<open>Point\<close> and \<^verbatim>\<open>MultiPoint\<close> stand for the kinds
  the rasteriser does not draw.
\<close>

datatype geometry =
    Point point
  | MultiPoint "point list"
  | LineString "point list"
  | MultiLineString "point list list"
  | Polygon "point list" "point list list"
  | MultiPolygon "(point list \<times> point list list) list"

text \<open>A cell of the data frame; the geometry column holds \<open>Geom\<close> cells (or \<open>Missing\<close>).\<close>

datatype cell =
    Str string
  | Num real
  | Timestamp int
  | Missing
  | Geom geometry

record feature =
  geometry :: cell
  attrs :: "cell list"

text \<open>
  What matters here of a pyproj CRS: its two kind properties, and the length in metres of
  one unit of its axes (pyproj's \<^verbatim>\<open>unit_conversion_factor\<close>: 1 for a CRS in metres,
  1200 / 3937 for one in US survey feet). The code reads \<^verbatim>\<open>is_geographic\<close> only.
\<close>

record CRS =
  crs_name :: string
  is_geographic :: bool
  is_projected :: bool
  unit_conversion_factor :: real

text \<open>
  A GeoDataFrame: its CRS (\<^verbatim>\<open>None\<close> when the file declares none), its attribute
  columns as (name, dtype name) pairs, and its rows in order.
\<close>

record GeoDataFrame =
  crs :: "CRS option"
  columns :: "(string \<times> string) list"
  features :: "feature list"

text \<open>The polygon returned by \<^verbatim>\<open>point.buffer(distance)\<close>, kept as centre and distance.\<close>

record region =
  center :: point
  radius :: real

section \<open>extract\_street\_data\<close>

definition MILES_TO_METERS :: real where
  "MILES_TO_METERS = 1609.34"

subsection \<open>The search region (lines 79 to 87)\<close>

definition buffer :: "point \<Rightarrow> real \<Rightarrow> region" where
  "buffer p distance = \<lparr>center = p, radius = distance\<rparr>"

text \<open>\<^verbatim>\<open>gdf.crs and gdf.crs.is_geographic\<close>: a missing CRS is falsy.\<close>

definition crs_is_geographic :: "CRS option \<Rightarrow> bool" where
  "crs_is_geographic c = (case c of None \<Rightarrow> False | Some k \<Rightarrow> is_geographic k)"

text \<open>
  \<open>project c p\<close> is \<^verbatim>\<open>transform(Transformer.from_crs("EPSG:4326", c, always_xy=True).transform, p)\<close>;
  \<open>Inl\<close> carries the message of the exception pyproj raises.
\<close>

definition search_buffer ::
  "(CRS option \<Rightarrow> point \<Rightarrow> string + point) \<Rightarrow> CRS option \<Rightarrow> point \<Rightarrow> real \<Rightarrow> string + region" where
  "search_buffer project c pt radius_meters =
     (if crs_is_geographic c then Inr (buffer pt (radius_meters / 111000))
      else (case project c pt of
              Inl e \<Rightarrow> Inl e
            | Inr point_proj \<Rightarrow> Inr (buffer point_proj radius_meters)))"

text \<open>Lines 43 to 44 followed by lines 79 to 87: the region for a radius given in miles.\<close>

definition search_region ::
  "(CRS option \<Rightarrow> point \<Rightarrow> string + point) \<Rightarrow> CRS option \<Rightarrow> point \<Rightarrow> real \<Rightarrow> string + region" where
  "search_region project c pt radius_miles =
     (let radius_meters = radius_miles * MILES_TO_METERS
      in search_buffer project c pt radius_meters)"

subsection \<open>The spatial filter (line 90)\<close>

text \<open>
  \<^verbatim>\<open>gdf.geometry.intersects(buffer)\<close> is a boolean series, one entry per row; a row
  without a geometry gives \<^verbatim>\<open>False\<close>. \<open>intersects\<close> is shapely's predicate.
\<close>

definition intersects_mask ::
  "(geometry \<Rightarrow> region \<Rightarrow> bool) \<Rightarrow> feature list \<Rightarrow> region \<Rightarrow> bool list" where
  "intersects_mask intersects fs b =
     map (\<lambda>f. case geometry f of Geom g \<Rightarrow> intersects g b | _ \<Rightarrow> False) fs"

text \<open>\<^verbatim>\<open>gdf[mask]\<close>: the rows whose mask entry is true, in their order.\<close>

definition boolean_index :: "GeoDataFrame \<Rightarrow> bool list \<Rightarrow> GeoDataFrame" where
  "boolean_index gdf msk =
     gdf\<lparr>features := map fst (filter snd (zip (features gdf) msk))\<rparr>"

definition spatial_filter ::
  "(geometry \<Rightarrow> region \<Rightarrow> bool) \<Rightarrow> GeoDataFrame \<Rightarrow> region \<Rightarrow> GeoDataFrame" where
  "spatial_filter intersects gdf b =
     boolean_index gdf (intersects_mask intersects (features gdf) b)"

text \<open>Whether a row meets the region, as the mask computes it.\<close>

definition hits :: "(geometry \<Rightarrow> region \<Rightarrow> bool) \<Rightarrow> region \<Rightarrow> feature \<Rightarrow> bool" where
  "hits intersects b f = (case geometry f of Geom g \<Rightarrow> intersects g b | _ \<Rightarrow> False)"

subsection \<open>The whole function\<close>

datatype error =
    FileNotFoundError string
  | ValueError string
  | LibraryError string

text \<open>One call of \<^verbatim>\<open>geolocator.geocode(address, timeout=10)\<close>.\<close>

datatype geocode_result =
    GeocodeRaises string
  | GeocodeNone
  | GeocodeFound point

text \<open>
  The loop of lines 63 to 70 over the attempt numbers: it leaves at the first attempt that
  finds a location; an attempt that raises or finds nothing leaves \<^verbatim>\<open>location = None\<close>.
\<close>

fun geocode_loop :: "(nat \<Rightarrow> geocode_result) \<Rightarrow> nat list \<Rightarrow> point option" where
  "geocode_loop geocode [] = None"
| "geocode_loop geocode (i # rest) =
     (case geocode i of
        GeocodeFound location \<Rightarrow> Some location
      | _ \<Rightarrow> geocode_loop geocode rest)"

definition centerline_path :: string where
  "centerline_path = ''Centerline_20250522/geo_export_afeb978c-bd19-430e-9999-6417824a9aae.shp''"

definition sidewalk_path :: string where
  "sidewalk_path =
     ''NYC Planimetric Database_ Sidewalk_20250523v2/geo_export_e1ca140e-1b37-4130-a4f9-9d5ed9ff9446.shp''"

text \<open>
  \<open>read_file path\<close> is \<open>None\<close> when the path does not exist and the loaded frame
  otherwise; \<open>geocode address i\<close> is the geocoder's answer at attempt \<open>i\<close>. The progress
  messages the function prints are left out.
\<close>

definition extract_street_data ::
  "(string \<Rightarrow> GeoDataFrame option) \<Rightarrow> (string \<Rightarrow> nat \<Rightarrow> geocode_result) \<Rightarrow>
   (CRS option \<Rightarrow> point \<Rightarrow> string + point) \<Rightarrow> (geometry \<Rightarrow> region \<Rightarrow> bool) \<Rightarrow>
   string \<Rightarrow> real \<Rightarrow> string \<Rightarrow> error + GeoDataFrame" where
  "extract_street_data read_file geocode project intersects address radius_miles data_type =
     (let data_path = (if data_type = ''traffic'' then centerline_path else sidewalk_path)
      in case read_file data_path of
           None \<Rightarrow> Inl (FileNotFoundError data_path)
         | Some gdf \<Rightarrow>
             (case geocode_loop (geocode address) [0..<3] of
                None \<Rightarrow> Inl (ValueError address)
              | Some pt \<Rightarrow>
                  (case search_region project (crs gdf) pt radius_miles of
                     Inl e \<Rightarrow> Inl (LibraryError e)
                   | Inr b \<Rightarrow> Inr (spatial_filter intersects gdf b))))"

section \<open>Geometry helpers\<close>

text \<open>
  The coordinates that decide a geometry's bounds: all of them, and for a polygon those of
  the exterior ring.
\<close>

fun geom_coords :: "geometry \<Rightarrow> point list" where
  "geom_coords (Point p) = [p]"
| "geom_coords (MultiPoint ps) = ps"
| "geom_coords (LineString ps) = ps"
| "geom_coords (MultiLineString ls) = concat ls"
| "geom_coords (Polygon ext ints) = ext"
| "geom_coords (MultiPolygon polys) = concat (map fst polys)"

text \<open>\<^verbatim>\<open>shapely.affinity.translate(geom, xoff, yoff)\<close>: every coordinate is shifted.\<close>

definition shift :: "real \<Rightarrow> real \<Rightarrow> point \<Rightarrow> point" where
  "shift xoff yoff p = (fst p + xoff, snd p + yoff)"

fun translate :: "geometry \<Rightarrow> real \<Rightarrow> real \<Rightarrow> geometry" where
  "translate (Point p) xoff yoff = Point (shift xoff yoff p)"
| "translate (MultiPoint ps) xoff yoff = MultiPoint (map (shift xoff yoff) ps)"
| "translate (LineString ps) xoff yoff = LineString (map (shift xoff yoff) ps)"
| "translate (MultiLineString ls) xoff yoff = MultiLineString (map (map (shift xoff yoff)) ls)"
| "translate (Polygon ext ints) xoff yoff =
     Polygon (map (shift xoff yoff) ext) (map (map (shift xoff yoff)) ints)"
| "translate (MultiPolygon polys) xoff yoff =
     MultiPolygon (map (\<lambda>(ext, ints). (map (shift xoff yoff) ext, map (map (shift xoff yoff)) ints)) polys)"

text \<open>\<^verbatim>\<open>gdf.geometry.type\<close>: the kind's name, \<^verbatim>\<open>None\<close> for a row without geometry.\<close>

fun geom_type :: "geometry \<Rightarrow> string" where
  "geom_type (Point p) = ''Point''"
| "geom_type (MultiPoint ps) = ''MultiPoint''"
| "geom_type (LineString ps) = ''LineString''"
| "geom_type (MultiLineString ls) = ''MultiLineString''"
| "geom_type (Polygon ext ints) = ''Polygon''"
| "geom_type (MultiPolygon polys) = ''MultiPolygon''"

definition geometry_type :: "feature \<Rightarrow> string option" where
  "geometry_type f = (case geometry f of Geom g \<Rightarrow> Some (geom_type g) | _ \<Rightarrow> None)"

text \<open>The geometries of the rows that have one, in row order (\<^verbatim>\<open>gdf.geometry\<close>).\<close>

definition geometries :: "GeoDataFrame \<Rightarrow> geometry list" where
  "geometries gdf = concat (map (\<lambda>f. case geometry f of Geom g \<Rightarrow> [g] | _ \<Rightarrow> []) (features gdf))"

text \<open>
  Stand-ins for the two shapely operations and for the float division, used where a
  statement is instantiated at concrete data: a geometry meets a buffer when one of its
  vertices lies in the closed disc, the centre of a geometry is the mean of its vertices,
  and a quotient is the exact one, infinite for a divisor of zero only.
\<close>

definition exact_quotient :: "real \<Rightarrow> real \<Rightarrow> real option" where
  "exact_quotient a b = (if b = 0 then None else Some (a / b))"

definition vertex_in_disc :: "geometry \<Rightarrow> region \<Rightarrow> bool" where
  "vertex_in_disc g b =
     list_ex (\<lambda>p. (fst p - fst (center b))\<^sup>2 + (snd p - snd (center b))\<^sup>2 \<le> (radius b)\<^sup>2)
       (geom_coords g)"

definition vertex_mean :: "geometry \<Rightarrow> point" where
  "vertex_mean g =
     (sum_list (map fst (geom_coords g)) / real (length (geom_coords g)),
      sum_list (map snd (geom_coords g)) / real (length (geom_coords g)))"

section \<open>Outputs\<close>

text \<open>
  What an export leaves behind, in order: a line printed, a drawing saved, a map document
  saved (with the frame it was built from), the browser opened on a path.
  \<open>NonFiniteDrawing\<close> is a saved drawing whose coordinates are not finite numbers.
\<close>

datatype drawing =
    Drawing "point list list"
  | NonFiniteDrawing

datatype event =
    Print string
  | SvgFile string nat drawing
  | HtmlFile string GeoDataFrame
  | OpenBrowser string

section \<open>export\_to\_html\<close>

text \<open>
  \<^verbatim>\<open>gdf.columns\<close>: the attribute columns by position, then the geometry column, whose
  dtype is named \<^verbatim>\<open>geometry\<close>.
\<close>

datatype column = Attr nat | GeometryColumn

definition gdf_columns :: "GeoDataFrame \<Rightarrow> column list" where
  "gdf_columns gdf = map Attr [0..<length (columns gdf)] @ [GeometryColumn]"

definition dtype_name :: "GeoDataFrame \<Rightarrow> column \<Rightarrow> string" where
  "dtype_name gdf col =
     (case col of Attr i \<Rightarrow> snd (columns gdf ! i) | GeometryColumn \<Rightarrow> ''geometry'')"

definition startswith :: "string \<Rightarrow> string \<Rightarrow> bool" where
  "startswith s p = (take (length p) s = p)"

text \<open>
  \<^verbatim>\<open>gdf[col] = gdf[col].astype(str)\<close>: every cell of the column becomes the string
  Python's \<^verbatim>\<open>str\<close> gives for it (\<open>to_str\<close>), and the column's dtype becomes
  \<^verbatim>\<open>object\<close>. The frame is updated in place, so the updated frame is the new state of
  the object the caller passed.
\<close>

definition astype_str :: "(cell \<Rightarrow> string) \<Rightarrow> GeoDataFrame \<Rightarrow> column \<Rightarrow> GeoDataFrame" where
  "astype_str to_str gdf col =
     (case col of
        Attr i \<Rightarrow>
          gdf\<lparr>columns := (columns gdf)[i := (fst (columns gdf ! i), ''object'')],
              features := map (\<lambda>f. f\<lparr>attrs := (attrs f)[i := Str (to_str (attrs f ! i))]\<rparr>)
                            (features gdf)\<rparr>
      | GeometryColumn \<Rightarrow>
          gdf\<lparr>features := map (\<lambda>f. f\<lparr>geometry := Str (to_str (geometry f))\<rparr>) (features gdf)\<rparr>)"

text \<open>The test of line 102 on a dtype name, and the body of the loop for one column.\<close>

definition needs_str :: "string \<Rightarrow> bool" where
  "needs_str name = (startswith name ''datetime'' \<or> name = ''object'')"

definition stringify_column :: "(cell \<Rightarrow> string) \<Rightarrow> column \<Rightarrow> GeoDataFrame \<Rightarrow> GeoDataFrame" where
  "stringify_column to_str col gdf =
     (if needs_str (dtype_name gdf col) then astype_str to_str gdf col else gdf)"

text \<open>
  The function returns the state of the caller's frame after the call, and the outputs.
  The map document is built from the frame after the conversion.
\<close>

definition export_to_html ::
  "(cell \<Rightarrow> string) \<Rightarrow> GeoDataFrame \<Rightarrow> string \<Rightarrow> GeoDataFrame \<times> event list" where
  "export_to_html to_str gdf output_path =
     (let gdf' = fold (stringify_column to_str) (gdf_columns gdf) gdf
      in (gdf', [HtmlFile output_path gdf', OpenBrowser output_path]))"

section \<open>export\_to\_svg\<close>

definition svg_width :: real where "svg_width = 1000"
definition svg_height :: real where "svg_height = 1000"
definition margin :: real where "margin = 40"

text \<open>Line 154: the rows whose geometry kind is one of the four names.\<close>

definition type_isin :: "feature \<Rightarrow> bool" where
  "type_isin f =
     (case geometry_type f of
        Some t \<Rightarrow> t \<in> set [''LineString'', ''MultiLineString'', ''Polygon'', ''MultiPolygon'']
      | None \<Rightarrow> False)"

definition keep_valid_types :: "GeoDataFrame \<Rightarrow> GeoDataFrame" where
  "keep_valid_types gdf = gdf\<lparr>features := filter type_isin (features gdf)\<rparr>"

text \<open>
  \<^verbatim>\<open>gdf.total_bounds\<close>: (minx, miny, maxx, maxy) over all coordinates; \<open>None\<close> stands
  for the NaN bounds of a frame whose geometries have no coordinate at all.
\<close>

definition total_bounds :: "geometry list \<Rightarrow> (real \<times> real \<times> real \<times> real) option" where
  "total_bounds geoms =
     (let ps = concat (map geom_coords geoms)
      in if ps = [] then None
         else Some (Min (set (map fst ps)), Min (set (map snd ps)),
                    Max (set (map fst ps)), Max (set (map snd ps))))"

text \<open>
  The quotient of the canvas size by an extent is a division of numpy floats: its result is
  rounded, and for an extent of zero, or small enough, it is infinity; nothing is raised.
  The division is the parameter \<open>quot\<close> of the functions below, \<open>None\<close> standing for a
  result that is not finite. \<open>min_inf\<close> is the smaller of two such values, infinity being
  the largest.
\<close>

fun min_inf :: "real option \<Rightarrow> real option \<Rightarrow> real option" where
  "min_inf None y = y"
| "min_inf (Some a) None = Some a"
| "min_inf (Some a) (Some b) = Some (min a b)"

text \<open>Lines 162 to 163 and 171 to 173 (and again lines 193 to 197).\<close>

definition canvas_scale ::
  "(real \<Rightarrow> real \<Rightarrow> real option) \<Rightarrow> real \<times> real \<times> real \<times> real \<Rightarrow> real option" where
  "canvas_scale quot bounds =
     (case bounds of (minx, miny, maxx, maxy) \<Rightarrow>
        (let width = maxx - minx;
             height = maxy - miny;
             scale_x = quot (svg_width - 2 * margin) width;
             scale_y = quot (svg_height - 2 * margin) height
         in min_inf scale_x scale_y))"

text \<open>\<^verbatim>\<open>np.mean\<close> of a list.\<close>

definition mean :: "real list \<Rightarrow> real" where
  "mean xs = sum_list xs / real (length xs)"

text \<open>
  Lines 177 to 187 with \<^verbatim>\<open>move_ratio\<close> as an argument (the code fixes it to 0.2):
  the new geometries. \<open>centroid\<close> is shapely's \<^verbatim>\<open>geom.centroid\<close>.
\<close>

definition increase_spacing :: "(geometry \<Rightarrow> point) \<Rightarrow> real \<Rightarrow> geometry list \<Rightarrow> geometry list" where
  "increase_spacing centroid move_ratio geoms =
     (let centroids = map centroid geoms;
          global_cx = mean (map fst centroids);
          global_cy = mean (map snd centroids)
      in map (\<lambda>(geom, c).
                let dx = fst c - global_cx;
                    dy = snd c - global_cy
                in translate geom (dx * move_ratio) (dy * move_ratio))
           (zip geoms centroids))"

text \<open>Lines 188 to 189: a copy of the frame with the geometry column replaced.\<close>

definition assign_geometry :: "GeoDataFrame \<Rightarrow> geometry list \<Rightarrow> GeoDataFrame" where
  "assign_geometry gdf new_geometries =
     gdf\<lparr>features := map (\<lambda>(f, g). f\<lparr>geometry := Geom g\<rparr>) (zip (features gdf) new_geometries)\<rparr>"

text \<open>Lines 199 to 202.\<close>

definition transform_coords :: "real \<Rightarrow> real \<Rightarrow> real \<Rightarrow> point \<Rightarrow> point" where
  "transform_coords minx maxy scale p =
     ((fst p - minx) * scale + margin, (maxy - snd p) * scale + margin)"

text \<open>Lines 211 to 227: the polylines one geometry adds to the drawing.\<close>

definition line_polylines :: "(point \<Rightarrow> point) \<Rightarrow> point list \<Rightarrow> point list list" where
  "line_polylines t line =
     (let coords = map t line in if length coords > 1 then [coords] else [])"

fun draw_geom :: "(point \<Rightarrow> point) \<Rightarrow> geometry \<Rightarrow> point list list" where
  "draw_geom t (LineString cs) = line_polylines t cs"
| "draw_geom t (MultiLineString ls) = concat (map (line_polylines t) ls)"
| "draw_geom t (Polygon ext ints) = [map t ext]"
| "draw_geom t (MultiPolygon polys) = map (\<lambda>poly. map t (fst poly)) polys"
| "draw_geom t (Point p) = []"
| "draw_geom t (MultiPoint ps) = []"

text \<open>
  The drawing built by lines 205 to 227 from the frame's geometries. With NaN bounds no
  geometry has a coordinate, so no coordinate is mapped; with a scale that is not finite
  (width and height both zero after the spacing adjustment) the coordinates are not
  numbers.
\<close>

definition render ::
  "(real \<times> real \<times> real \<times> real) option \<Rightarrow> real option \<Rightarrow> geometry list \<Rightarrow> drawing" where
  "render bounds scale geoms =
     (case bounds of
        None \<Rightarrow> Drawing (concat (map (draw_geom (\<lambda>p. p)) geoms))
      | Some (minx, miny, maxx, maxy) \<Rightarrow>
          (case scale of
             None \<Rightarrow> NonFiniteDrawing
           | Some sc \<Rightarrow> Drawing (concat (map (draw_geom (transform_coords minx maxy sc)) geoms))))"

text \<open>
  The places of the \<^verbatim>\<open>try\<close> block where a library call may raise. \<open>fails\<close> tells
  for each whether it does, with the message of the exception: line 154
  (\<open>AtTypeFilter\<close>), line 160 (\<open>AtBounds\<close>), lines 177 to 187 (\<open>AtSpacing\<close>), lines 191
  to 227 (\<open>AtDrawing\<close>), line 230 (\<open>AtSave\<close>).
\<close>

datatype fault_point = AtTypeFilter | AtBounds | AtSpacing | AtDrawing | AtSave

text \<open>
  The \<^verbatim>\<open>try\<close> block in three parts. Each returns the outputs, or (\<open>Inl\<close>) the
  message of the exception raised, the frame the local variable \<^verbatim>\<open>gdf\<close> names at
  that moment, and whether that frame is still the caller's object.
\<close>

definition svg_save ::
  "(fault_point \<Rightarrow> string option) \<Rightarrow> GeoDataFrame \<Rightarrow> string \<Rightarrow> nat \<Rightarrow>
   (real \<times> real \<times> real \<times> real) option \<Rightarrow> real option \<Rightarrow>
   (string \<times> GeoDataFrame \<times> bool) + event list" where
  "svg_save fails gdf output_path line_width bounds scale =
     (case fails AtDrawing of
        Some e \<Rightarrow> Inl (e, gdf, False)
      | None \<Rightarrow>
          (case fails AtSave of
             Some e \<Rightarrow> Inl (e, gdf, False)
           | None \<Rightarrow>
               Inr [SvgFile output_path line_width (render bounds scale (geometries gdf)),
                    Print (''SVG file generated: '' @ output_path)]))"

definition svg_spacing ::
  "(geometry \<Rightarrow> point) \<Rightarrow> (real \<Rightarrow> real \<Rightarrow> real option) \<Rightarrow>
   (fault_point \<Rightarrow> string option) \<Rightarrow> GeoDataFrame \<Rightarrow> string \<Rightarrow>
   string \<Rightarrow> nat \<Rightarrow> (real \<times> real \<times> real \<times> real) option \<Rightarrow> real option \<Rightarrow>
   (string \<times> GeoDataFrame \<times> bool) + event list" where
  "svg_spacing centroid quot fails gdf output_path data_type line_width bounds scale =
     (if data_type = ''pedestrian'' then
        (case fails AtSpacing of
           Some e \<Rightarrow> Inl (e, gdf, False)
         | None \<Rightarrow>
             (let move_ratio = 0.2;
                  new_geometries = increase_spacing centroid move_ratio (geometries gdf);
                  gdf2 = assign_geometry gdf new_geometries;
                  bounds2 = total_bounds (geometries gdf2);
                  scale2 = (case bounds2 of None \<Rightarrow> None | Some b \<Rightarrow> canvas_scale quot b)
              in svg_save fails gdf2 output_path line_width bounds2 scale2))
      else svg_save fails gdf output_path line_width bounds scale)"

definition svg_try ::
  "(geometry \<Rightarrow> point) \<Rightarrow> (real \<Rightarrow> real \<Rightarrow> real option) \<Rightarrow>
   (fault_point \<Rightarrow> string option) \<Rightarrow> GeoDataFrame \<Rightarrow> string \<Rightarrow>
   string \<Rightarrow> (string \<times> GeoDataFrame \<times> bool) + event list" where
  "svg_try centroid quot fails gdf output_path data_type =
     (case fails AtTypeFilter of
        Some e \<Rightarrow> Inl (e, gdf, True)
      | None \<Rightarrow>
          (let line_width = (if data_type = ''pedestrian'' then 2 else 1);
               gdf1 = keep_valid_types gdf
           in if features gdf1 = []
              then Inr [Print ''No valid line or polygon data, cannot generate SVG.'']
              else
                (case fails AtBounds of
                   Some e \<Rightarrow> Inl (e, gdf1, False)
                 | None \<Rightarrow>
                     (case total_bounds (geometries gdf1) of
                        None \<Rightarrow>
                          svg_spacing centroid quot fails gdf1 output_path data_type line_width None None
                      | Some (minx, miny, maxx, maxy) \<Rightarrow>
                          (let width = maxx - minx;
                               height = maxy - miny
                           in if width = 0 \<or> height = 0
                              then Inr [Print ''Data range too small, cannot generate valid SVG.'']
                              else svg_spacing centroid quot fails gdf1 output_path data_type line_width
                                     (Some (minx, miny, maxx, maxy))
                                     (canvas_scale quot (minx, miny, maxx, maxy)))))))"

text \<open>\<^verbatim>\<open>output_path.replace('.svg', '.html')\<close>: every occurrence, left to right.\<close>

fun replace_svg_html :: "string \<Rightarrow> string" where
  "replace_svg_html [] = []"
| "replace_svg_html (c # cs) =
     (if take 4 (c # cs) = ''.svg'' then ''.html'' @ replace_svg_html (drop 3 cs)
      else c # replace_svg_html cs)"

text \<open>
  The function: the \<^verbatim>\<open>try\<close> block, and the handler of lines 233 to 237, which
  prints two lines and calls \<^verbatim>\<open>export_to_html\<close> on the frame the local variable names.
  The result is the state of the caller's frame after the call, and the outputs.
\<close>

definition export_to_svg ::
  "(geometry \<Rightarrow> point) \<Rightarrow> (real \<Rightarrow> real \<Rightarrow> real option) \<Rightarrow> (cell \<Rightarrow> string) \<Rightarrow>
   (fault_point \<Rightarrow> string option) \<Rightarrow>
   GeoDataFrame \<Rightarrow> string \<Rightarrow> string \<Rightarrow> GeoDataFrame \<times> event list" where
  "export_to_svg centroid quot to_str fails gdf output_path data_type =
     (case svg_try centroid quot fails gdf output_path data_type of
        Inr evs \<Rightarrow> (gdf, evs)
      | Inl (e, local_gdf, same_object) \<Rightarrow>
          (let html_path = replace_svg_html output_path;
               (gdf', evs) = export_to_html to_str local_gdf html_path
           in (if same_object then gdf' else gdf,
               [Print (''Warning: Error generating SVG file: '' @ e),
                Print ''Will use HTML format instead.''] @ evs)))"

section \<open>The export step of main (lines 310 to 317)\<close>

definition main_export ::
  "(geometry \<Rightarrow> point) \<Rightarrow> (real \<Rightarrow> real \<Rightarrow> real option) \<Rightarrow> (cell \<Rightarrow> string) \<Rightarrow>
   (fault_point \<Rightarrow> string option) \<Rightarrow>
   GeoDataFrame \<Rightarrow> string \<Rightarrow> string \<Rightarrow> string \<Rightarrow> string \<Rightarrow> GeoDataFrame \<times> event list" where
  "main_export centroid quot to_str fails data html_path svg_path data_type output_format =
     (let (data1, evs1) =
            (if output_format \<in> set [''1'', ''3'']
             then (let (d, evs) = export_to_html to_str data html_path
                   in (d, Print (CHR 0x0A # ''Generating HTML file: '' @ html_path) # evs))
             else (data, []));
          (data2, evs2) =
            (if output_format \<in> set [''2'', ''3'']
             then (let (d, evs) = export_to_svg centroid quot to_str fails data1 svg_path data_type
                   in (d, Print (CHR 0x0A # ''Generating SVG file: '' @ svg_path) # evs))
             else (data1, []))
      in (data2, evs1 @ evs2))"

section \<open>Notions used in the statements\<close>

text \<open>
  The frame after the first \<open>k\<close> attribute columns have gone through the loop of
  \<^verbatim>\<open>export_to_html\<close>, written without the loop: a column among the first \<open>k\<close> whose
  dtype name passes the test has dtype \<^verbatim>\<open>object\<close> and string cells; everything else
  is as it was.
\<close>

definition stringified_columns :: "nat \<Rightarrow> (string \<times> string) list \<Rightarrow> (string \<times> string) list" where
  "stringified_columns k cols =
     map (\<lambda>(i, c). if i < k \<and> needs_str (snd c) then (fst c, ''object'') else c) (enumerate 0 cols)"

definition stringified_attrs ::
  "(cell \<Rightarrow> string) \<Rightarrow> (string \<times> string) list \<Rightarrow> nat \<Rightarrow> cell list \<Rightarrow> cell list" where
  "stringified_attrs to_str cols k vs =
     map (\<lambda>(i, v). if i < k \<and> i < length cols \<and> needs_str (snd (cols ! i))
                    then Str (to_str v) else v)
       (enumerate 0 vs)"

definition stringified :: "(cell \<Rightarrow> string) \<Rightarrow> nat \<Rightarrow> GeoDataFrame \<Rightarrow> GeoDataFrame" where
  "stringified to_str k gdf =
     gdf\<lparr>columns := stringified_columns k (columns gdf),
         features := map (\<lambda>f. f\<lparr>attrs := stringified_attrs to_str (columns gdf) k (attrs f)\<rparr>)
                       (features gdf)\<rparr>"

text \<open>The map documents and the drawings among some outputs.\<close>

definition html_exports :: "event list \<Rightarrow> (string \<times> GeoDataFrame) list" where
  "html_exports evs = concat (map (\<lambda>e. case e of HtmlFile p g \<Rightarrow> [(p, g)] | _ \<Rightarrow> []) evs)"

definition svg_exports :: "event list \<Rightarrow> (string \<times> drawing) list" where
  "svg_exports evs = concat (map (\<lambda>e. case e of SvgFile p w d \<Rightarrow> [(p, d)] | _ \<Rightarrow> []) evs)"


text \<open>The mean of the centroids, and the Euclidean distance of two points.\<close>

definition global_centroid :: "(geometry \<Rightarrow> point) \<Rightarrow> geometry list \<Rightarrow> point" where
  "global_centroid centroid geoms =
     (mean (map fst (map centroid geoms)), mean (map snd (map centroid geoms)))"

definition distance :: "point \<Rightarrow> point \<Rightarrow> real" where
  "distance p q = sqrt ((fst p - fst q)\<^sup>2 + (snd p - snd q)\<^sup>2)"

text \<open>The geometries the drawing is made of: shifted apart for pedestrian data.\<close>

definition drawn_geometries :: "(geometry \<Rightarrow> point) \<Rightarrow> string \<Rightarrow> GeoDataFrame \<Rightarrow> geometry list" where
  "drawn_geometries centroid data_type gdf =
     (if data_type = ''pedestrian''
      then increase_spacing centroid 0.2 (geometries (keep_valid_types gdf))
      else geometries (keep_valid_types gdf))"

section \<open>Properties\<close>

lemma boolean_index_mask:
  "map fst (filter snd (zip fs (map P fs))) = filter P fs"
  by (induction fs) simp_all

lemma spatial_filter_features:
  "features (spatial_filter intersects gdf b) = filter (hits intersects b) (features gdf)"
proof -
  have "intersects_mask intersects (features gdf) b = map (hits intersects b) (features gdf)"
    by (simp add: intersects_mask_def hits_def)
  then show ?thesis
    by (simp add: spatial_filter_def boolean_index_def boolean_index_mask)
qed

subsection \<open>The spatial filter\<close>

text \<open>
  Claim C1. The spatial filter returns exactly the rows whose geometry meets the region,
  as shapely's \<open>intersects\<close> decides it (a row without geometry never does): a row is in
  the result if and only if it is in the source and meets the region; the result is the
  source with the other rows removed, so the surviving rows keep their relative order;
  and the result is never longer than the source. The CRS and the columns are kept.
\<close>

theorem spatial_filter_exact_ordered:
  "features (spatial_filter intersects gdf b) = filter (hits intersects b) (features gdf)
   \<and> (\<forall>f. f \<in> set (features (spatial_filter intersects gdf b))
           \<longleftrightarrow> (f \<in> set (features gdf) \<and> hits intersects b f))
   \<and> subseq (features (spatial_filter intersects gdf b)) (features gdf)
   \<and> length (features (spatial_filter intersects gdf b)) \<le> length (features gdf)
   \<and> crs (spatial_filter intersects gdf b) = crs gdf
   \<and> columns (spatial_filter intersects gdf b) = columns gdf"
proof -
  have frame: "crs (spatial_filter intersects gdf b) = crs gdf"
    "columns (spatial_filter intersects gdf b) = columns gdf"
    by (simp_all add: spatial_filter_def boolean_index_def)
  show ?thesis
    unfolding spatial_filter_features using frame by auto
qed

theorem spatial_filter_exact_ordered_witness:
  "features (spatial_filter vertex_in_disc
      \<lparr>crs = None, columns = [(''name'', ''object'')],
       features = [\<lparr>geometry = Geom (LineString [(0, 0), (1, 1)]), attrs = [Str ''a'']\<rparr>,
                   \<lparr>geometry = Geom (LineString [(5, 5), (6, 6)]), attrs = [Str ''b'']\<rparr>,
                   \<lparr>geometry = Missing, attrs = [Str ''c'']\<rparr>,
                   \<lparr>geometry = Geom (Point (2, 0)), attrs = [Str ''d'']\<rparr>]\<rparr>
      \<lparr>center = (0, 0), radius = 2\<rparr>)
   = [\<lparr>geometry = Geom (LineString [(0, 0), (1, 1)]), attrs = [Str ''a'']\<rparr>,
      \<lparr>geometry = Geom (Point (2, 0)), attrs = [Str ''d'']\<rparr>]"
  using spatial_filter_exact_ordered
    [of vertex_in_disc
      "\<lparr>crs = None, columns = [(''name'', ''object'')],
       features = [\<lparr>geometry = Geom (LineString [(0, 0), (1, 1)]), attrs = [Str ''a'']\<rparr>,
                   \<lparr>geometry = Geom (LineString [(5, 5), (6, 6)]), attrs = [Str ''b'']\<rparr>,
                   \<lparr>geometry = Missing, attrs = [Str ''c'']\<rparr>,
                   \<lparr>geometry = Geom (Point (2, 0)), attrs = [Str ''d'']\<rparr>]\<rparr>"
      "\<lparr>center = (0, 0), radius = 2\<rparr>"]
  by (simp add: hits_def vertex_in_disc_def)

text \<open>
  Claim C8. Filtering is idempotent: filtering the result of the filter again with the
  same region gives that result back, the same rows in the same order.
\<close>

theorem spatial_filter_idempotent:
  "spatial_filter intersects (spatial_filter intersects gdf b) b = spatial_filter intersects gdf b"
proof -
  have "features (spatial_filter intersects (spatial_filter intersects gdf b) b)
        = features (spatial_filter intersects gdf b)"
    by (simp add: spatial_filter_features)
  then show ?thesis
    by (simp add: spatial_filter_def boolean_index_def)
qed

subsection \<open>The search region\<close>




text \<open>
  Claim C6, as stated, fails. A CRS that is neither geographic nor projected (here the
  geocentric EPSG:4978, for which the transformer succeeds) is not rejected: the region is
  built on the projected path.
\<close>

theorem unsupported_crs_not_rejected:
  "search_region (\<lambda>c p. Inr p)
     (Some \<lparr>crs_name = ''EPSG:4978'', is_geographic = False, is_projected = False, unit_conversion_factor = 1\<rparr>) (-74, 40) 1
   = Inr \<lparr>center = (-74, 40), radius = 1609.34\<rparr>"
  by (simp add: search_region_def search_buffer_def crs_is_geographic_def MILES_TO_METERS_def buffer_def)

text \<open>
  Claim C6, amended. Region construction has no check for an unsupported CRS. Whenever the
  dataset's CRS is not reported geographic (a projected CRS, a CRS that is neither
  geographic nor projected, or no CRS at all) the projected path is taken: the point is
  transformed from EPSG:4326 into the dataset's CRS and buffered by r * 1609.34. Region
  construction fails only when that transformation raises, and then with the
  transformer's own error.
\<close>

theorem search_region_not_geographic:
  "\<not> crs_is_geographic c \<Longrightarrow>
   search_region project c pt r =
     (case project c pt of Inl e \<Rightarrow> Inl e | Inr q \<Rightarrow> Inr (buffer q (r * 1609.34)))"
  by (simp add: search_region_def search_buffer_def MILES_TO_METERS_def split: sum.splits)

theorem search_region_not_geographic_witness:
  "search_region (\<lambda>c p. if c = None then Inl ''Invalid projection'' else Inr p)
     (Some \<lparr>crs_name = ''EPSG:4978'', is_geographic = False, is_projected = False, unit_conversion_factor = 1\<rparr>) (-74, 40) 1
   = Inr \<lparr>center = (-74, 40), radius = 1609.34\<rparr>
   \<and> search_region (\<lambda>c p. if c = None then Inl ''Invalid projection'' else Inr p) None (-74, 40) 1
   = Inl ''Invalid projection''"
  using search_region_not_geographic
    [of "Some \<lparr>crs_name = ''EPSG:4978'', is_geographic = False, is_projected = False, unit_conversion_factor = 1\<rparr>"
        "\<lambda>c p. if c = None then Inl ''Invalid projection'' else Inr p" "(-74, 40)" 1]
    search_region_not_geographic
    [of None "\<lambda>c p. if c = None then Inl ''Invalid projection'' else Inr p" "(-74, 40)" 1]
  by (simp add: buffer_def crs_is_geographic_def)

subsection \<open>The map export\<close>

lemma needs_str_geometry: "\<not> needs_str ''geometry''"
  by (simp add: needs_str_def startswith_def)

lemma stringify_geometry_column: "stringify_column to_str GeometryColumn g = g"
  by (simp add: stringify_column_def dtype_name_def needs_str_geometry)

lemma stringified_0: "stringified to_str 0 gdf = gdf"
proof -
  have a: "stringified_columns 0 cols = cols" for cols
    by (simp add: stringified_columns_def map_snd_enumerate case_prod_unfold)
  have b: "stringified_attrs to_str cols 0 vs = vs" for cols vs
    by (simp add: stringified_attrs_def map_snd_enumerate case_prod_unfold)
  show ?thesis by (simp add: stringified_def a b)
qed

lemma stringified_columns_length: "length (stringified_columns k cols) = length cols"
  by (simp add: stringified_columns_def)

lemma stringified_columns_nth:
  "i < length cols \<Longrightarrow>
   stringified_columns k cols ! i =
     (if i < k \<and> needs_str (snd (cols ! i)) then (fst (cols ! i), ''object'') else cols ! i)"
  by (simp add: stringified_columns_def nth_enumerate_eq)

lemma stringified_columns_Suc:
  assumes "k < length cols"
  shows "stringified_columns (Suc k) cols =
    (if needs_str (snd (cols ! k))
     then (stringified_columns k cols)[k := (fst (cols ! k), ''object'')]
     else stringified_columns k cols)" (is "?l = ?r")
proof (rule nth_equalityI)
  show "length ?l = length ?r"
    by (simp add: stringified_columns_length)
next
  fix i assume "i < length ?l"
  then have i: "i < length cols" by (simp add: stringified_columns_length)
  show "?l ! i = ?r ! i"
  proof (cases "i = k")
    case True
    then show ?thesis using i by (simp add: stringified_columns_nth stringified_columns_length)
  next
    case False
    then show ?thesis using i
      by (auto simp: stringified_columns_nth stringified_columns_length less_Suc_eq)
  qed
qed

lemma stringified_attrs_length: "length (stringified_attrs to_str cols k vs) = length vs"
  by (simp add: stringified_attrs_def)

lemma stringified_attrs_nth:
  "i < length vs \<Longrightarrow>
   stringified_attrs to_str cols k vs ! i =
     (if i < k \<and> i < length cols \<and> needs_str (snd (cols ! i)) then Str (to_str (vs ! i))
      else vs ! i)"
  by (simp add: stringified_attrs_def nth_enumerate_eq)

lemma stringified_attrs_Suc:
  assumes "k < length cols"
  shows "stringified_attrs to_str cols (Suc k) vs =
    (if needs_str (snd (cols ! k))
     then (stringified_attrs to_str cols k vs)
            [k := Str (to_str (stringified_attrs to_str cols k vs ! k))]
     else stringified_attrs to_str cols k vs)" (is "?l = ?r")
proof (rule nth_equalityI)
  show "length ?l = length ?r"
    by (simp add: stringified_attrs_length)
next
  fix i assume "i < length ?l"
  then have i: "i < length vs" by (simp add: stringified_attrs_length)
  show "?l ! i = ?r ! i"
  proof (cases "i = k")
    case True
    then show ?thesis using i assms
      by (simp add: stringified_attrs_nth stringified_attrs_length)
  next
    case False
    then show ?thesis using i assms
      by (auto simp: stringified_attrs_nth stringified_attrs_length less_Suc_eq)
  qed
qed

lemma stringify_step:
  assumes "k < length (columns gdf)"
  shows "stringify_column to_str (Attr k) (stringified to_str k gdf) = stringified to_str (Suc k) gdf"
proof -
  have d: "dtype_name (stringified to_str k gdf) (Attr k) = snd (columns gdf ! k)"
    using assms by (simp add: dtype_name_def stringified_def stringified_columns_nth)
  have f: "fst (stringified_columns k (columns gdf) ! k) = fst (columns gdf ! k)"
    using assms by (simp add: stringified_columns_nth)
  have a: "astype_str to_str (stringified to_str k gdf) (Attr k) =
     gdf\<lparr>columns := (stringified_columns k (columns gdf))[k := (fst (columns gdf ! k), ''object'')],
         features := map (\<lambda>f. f\<lparr>attrs := (stringified_attrs to_str (columns gdf) k (attrs f))
                        [k := Str (to_str (stringified_attrs to_str (columns gdf) k (attrs f) ! k))]\<rparr>)
                       (features gdf)\<rparr>"
    by (simp add: astype_str_def stringified_def f comp_def)
  show ?thesis
  proof (cases "needs_str (snd (columns gdf ! k))")
    case True
    then show ?thesis
      unfolding stringify_column_def d a using assms
      by (simp add: stringified_def stringified_columns_Suc stringified_attrs_Suc)
  next
    case False
    then show ?thesis
      unfolding stringify_column_def d using assms
      by (simp add: stringified_def stringified_columns_Suc stringified_attrs_Suc)
  qed
qed

lemma fold_attr_columns:
  "k \<le> length (columns gdf) \<Longrightarrow>
   fold (stringify_column to_str) (map Attr [0..<k]) gdf = stringified to_str k gdf"
proof (induction k)
  case 0
  then show ?case by (simp add: stringified_0)
next
  case (Suc k)
  then show ?case by (simp add: stringify_step)
qed

lemma export_to_html_eq:
  "export_to_html to_str gdf path =
     (stringified to_str (length (columns gdf)) gdf,
      [HtmlFile path (stringified to_str (length (columns gdf)) gdf), OpenBrowser path])"
  by (simp add: export_to_html_def Let_def gdf_columns_def fold_attr_columns
      stringify_geometry_column)

lemma stringified_geometry:
  "map geometry (features (stringified to_str k gdf)) = map geometry (features gdf)"
  by (simp add: stringified_def comp_def)

text \<open>
  Claim C10. \<^verbatim>\<open>export_to_html\<close> changes the frame it is given: after the call every
  attribute column whose dtype name starts with \<^verbatim>\<open>datetime\<close> or is \<^verbatim>\<open>object\<close>
  holds the strings of its former cells, the other attribute cells, the geometry column
  and the CRS are as before, and the map is built from the converted frame. When both
  outputs are requested, \<^verbatim>\<open>main\<close> passes that converted frame to
  \<^verbatim>\<open>export_to_svg\<close>.
\<close>

theorem export_to_html_mutates_frame:
  "fst (export_to_html to_str gdf path) = stringified to_str (length (columns gdf)) gdf
   \<and> (\<forall>r i. r < length (features gdf) \<and> i < length (attrs (features gdf ! r)) \<longrightarrow>
         attrs (features (fst (export_to_html to_str gdf path)) ! r) ! i =
           (if i < length (columns gdf) \<and> needs_str (snd (columns gdf ! i))
            then Str (to_str (attrs (features gdf ! r) ! i))
            else attrs (features gdf ! r) ! i))
   \<and> map geometry (features (fst (export_to_html to_str gdf path))) = map geometry (features gdf)
   \<and> crs (fst (export_to_html to_str gdf path)) = crs gdf
   \<and> html_exports (snd (export_to_html to_str gdf path)) =
       [(path, stringified to_str (length (columns gdf)) gdf)]
   \<and> main_export centroid quot to_str fails gdf path svg_path data_type ''3'' =
       (fst (export_to_svg centroid quot to_str fails
               (stringified to_str (length (columns gdf)) gdf) svg_path data_type),
        Print (CHR 0x0A # ''Generating HTML file: '' @ path)
        # snd (export_to_html to_str gdf path)
        @ Print (CHR 0x0A # ''Generating SVG file: '' @ svg_path)
        # snd (export_to_svg centroid quot to_str fails
                 (stringified to_str (length (columns gdf)) gdf) svg_path data_type))"
proof -
  have cells: "\<forall>r i. r < length (features gdf) \<and> i < length (attrs (features gdf ! r)) \<longrightarrow>
         attrs (features (stringified to_str (length (columns gdf)) gdf) ! r) ! i =
           (if i < length (columns gdf) \<and> needs_str (snd (columns gdf ! i))
            then Str (to_str (attrs (features gdf ! r) ! i))
            else attrs (features gdf ! r) ! i)"
    by (simp add: stringified_def stringified_attrs_nth)
  have frame: "crs (stringified to_str (length (columns gdf)) gdf) = crs gdf"
    by (simp add: stringified_def)
  have docs: "html_exports (snd (export_to_html to_str gdf path)) =
       [(path, stringified to_str (length (columns gdf)) gdf)]"
    by (simp add: export_to_html_eq html_exports_def)
  have both: "main_export centroid quot to_str fails gdf path svg_path data_type ''3'' =
       (fst (export_to_svg centroid quot to_str fails
               (stringified to_str (length (columns gdf)) gdf) svg_path data_type),
        Print (CHR 0x0A # ''Generating HTML file: '' @ path)
        # snd (export_to_html to_str gdf path)
        @ Print (CHR 0x0A # ''Generating SVG file: '' @ svg_path)
        # snd (export_to_svg centroid quot to_str fails
                 (stringified to_str (length (columns gdf)) gdf) svg_path data_type))"
    by (simp add: main_export_def export_to_html_eq case_prod_unfold Let_def)
  show ?thesis
    using cells frame docs both by (simp add: export_to_html_eq stringified_geometry)
qed

theorem export_to_html_mutates_frame_witness:
  "fst (export_to_html (\<lambda>c. case c of Timestamp t \<Rightarrow> ''2025-05-22'' | Str s \<Rightarrow> s | _ \<Rightarrow> ''nan'')
     \<lparr>crs = None,
      columns = [(''created'', ''datetime64[ns]''), (''width'', ''float64''), (''name'', ''object'')],
      features = [\<lparr>geometry = Geom (LineString [(0, 0), (2, 1)]),
                   attrs = [Timestamp 5, Num 30, Str ''Broadway'']\<rparr>]\<rparr>
     ''map.html'')
   = \<lparr>crs = None,
      columns = [(''created'', ''object''), (''width'', ''float64''), (''name'', ''object'')],
      features = [\<lparr>geometry = Geom (LineString [(0, 0), (2, 1)]),
                   attrs = [Str ''2025-05-22'', Num 30, Str ''Broadway'']\<rparr>]\<rparr>"
  using export_to_html_mutates_frame
    [of "\<lambda>c. case c of Timestamp t \<Rightarrow> ''2025-05-22'' | Str s \<Rightarrow> s | _ \<Rightarrow> ''nan''"
      "\<lparr>crs = None,
      columns = [(''created'', ''datetime64[ns]''), (''width'', ''float64''), (''name'', ''object'')],
      features = [\<lparr>geometry = Geom (LineString [(0, 0), (2, 1)]),
                   attrs = [Timestamp 5, Num 30, Str ''Broadway'']\<rparr>]\<rparr>"
      "''map.html''"]
  by (simp add: stringified_def stringified_columns_def stringified_attrs_def needs_str_def
      startswith_def)

subsection \<open>The rasteriser: the path that saves a drawing\<close>

lemma type_isin_Geom: "type_isin f \<Longrightarrow> \<exists>g. geometry f = Geom g"
  by (cases "geometry f") (simp_all add: type_isin_def geometry_type_def)

lemma geometries_length:
  "\<forall>f \<in> set (features gdf). \<exists>g. geometry f = Geom g \<Longrightarrow>
   length (geometries gdf) = length (features gdf)"
proof -
  have "\<forall>f \<in> set fs. \<exists>g. geometry f = Geom g \<Longrightarrow>
        length (concat (map (\<lambda>f. case geometry f of Geom g \<Rightarrow> [g] | _ \<Rightarrow> []) fs)) = length fs"
    for fs :: "feature list"
    by (induction fs) auto
  then show "\<forall>f \<in> set (features gdf). \<exists>g. geometry f = Geom g \<Longrightarrow>
   length (geometries gdf) = length (features gdf)"
    by (simp add: geometries_def)
qed

lemma geometries_valid_length:
  "length (geometries (keep_valid_types gdf)) = length (features (keep_valid_types gdf))"
  by (rule geometries_length) (simp add: keep_valid_types_def type_isin_Geom)

lemma geometries_assign:
  "length gs = length (features gdf) \<Longrightarrow> geometries (assign_geometry gdf gs) = gs"
proof -
  have "length fs = length gs \<Longrightarrow>
        concat (map (\<lambda>f. case geometry f of Geom g \<Rightarrow> [g] | _ \<Rightarrow> [])
                  (map (\<lambda>(f, g). f\<lparr>geometry := Geom g\<rparr>) (zip fs gs))) = gs"
    for fs :: "feature list"
    by (induction fs gs rule: list_induct2) simp_all
  then show "length gs = length (features gdf) \<Longrightarrow> geometries (assign_geometry gdf gs) = gs"
    by (simp add: geometries_def assign_geometry_def)
qed

lemma increase_spacing_map:
  "increase_spacing centroid r geoms =
     map (\<lambda>g. translate g ((fst (centroid g) - fst (global_centroid centroid geoms)) * r)
                          ((snd (centroid g) - snd (global_centroid centroid geoms)) * r)) geoms"
  by (simp add: increase_spacing_def global_centroid_def Let_def zip_map2 zip_same_conv_map comp_def)

lemma increase_spacing_length: "length (increase_spacing centroid r geoms) = length geoms"
  by (simp add: increase_spacing_map)

lemma svg_spacing_saves:
  assumes "fails AtSpacing = None" "fails AtDrawing = None" "fails AtSave = None"
  shows "svg_spacing centroid quot fails (keep_valid_types gdf) output_path data_type line_width (Some b) (canvas_scale quot b) =
     Inr [SvgFile output_path line_width
            (render (if data_type = ''pedestrian'' then total_bounds (drawn_geometries centroid data_type gdf) else Some b)
                    (if data_type = ''pedestrian''
                     then (case total_bounds (drawn_geometries centroid data_type gdf) of
                             None \<Rightarrow> None | Some b' \<Rightarrow> canvas_scale quot b')
                     else canvas_scale quot b)
                    (drawn_geometries centroid data_type gdf)),
          Print (''SVG file generated: '' @ output_path)]"
proof -
  have "geometries (assign_geometry (keep_valid_types gdf)
          (increase_spacing centroid (2 / 10) (geometries (keep_valid_types gdf))))
        = increase_spacing centroid (2 / 10) (geometries (keep_valid_types gdf))"
    by (rule geometries_assign) (simp add: increase_spacing_length geometries_valid_length)
  then show ?thesis
    using assms by (simp add: svg_spacing_def svg_save_def drawn_geometries_def Let_def)
qed

lemma svg_try_saves:
  assumes "\<And>p. fails p = None"
    and "features (keep_valid_types gdf) \<noteq> []"
    and "total_bounds (geometries (keep_valid_types gdf)) = Some (minx, miny, maxx, maxy)"
    and "maxx - minx \<noteq> 0" "maxy - miny \<noteq> 0"
  shows "svg_try centroid quot fails gdf output_path data_type =
     Inr [SvgFile output_path (if data_type = ''pedestrian'' then 2 else 1)
            (render (total_bounds (drawn_geometries centroid data_type gdf))
                    (case total_bounds (drawn_geometries centroid data_type gdf) of
                       None \<Rightarrow> None | Some b' \<Rightarrow> canvas_scale quot b')
                    (drawn_geometries centroid data_type gdf)),
          Print (''SVG file generated: '' @ output_path)]"
proof -
  have other: "data_type \<noteq> ''pedestrian'' \<Longrightarrow>
     total_bounds (drawn_geometries centroid data_type gdf) = Some (minx, miny, maxx, maxy)"
    using assms(3) by (simp add: drawn_geometries_def)
  show ?thesis
  proof (cases "data_type = ''pedestrian''")
    case True
    then show ?thesis
      using assms by (simp add: svg_try_def Let_def svg_spacing_saves)
  next
    case False
    then show ?thesis
      using assms other by (simp add: svg_try_def Let_def svg_spacing_saves)
  qed
qed

lemma total_bounds_ordered:
  assumes "total_bounds geoms = Some (minx, miny, maxx, maxy)"
  shows "minx \<le> maxx \<and> miny \<le> maxy"
proof -
  let ?ps = "concat (map geom_coords geoms)"
  from assms have ne: "?ps \<noteq> []"
    by (auto simp: total_bounds_def Let_def split: if_splits)
  then obtain p where p: "p \<in> set ?ps"
    by (cases ?ps) auto
  from assms ne have eqs: "minx = Min (set (map fst ?ps))" "maxx = Max (set (map fst ?ps))"
    "miny = Min (set (map snd ?ps))" "maxy = Max (set (map snd ?ps))"
    by (auto simp: total_bounds_def Let_def split: if_splits)
  have "minx \<le> fst p" "fst p \<le> maxx" "miny \<le> snd p" "snd p \<le> maxy"
    using p unfolding eqs by (auto intro!: Min_le Max_ge)
  then show ?thesis by linarith
qed

lemma canvas_scale_finite:
  "quot (svg_width - 2 * margin) (maxx - minx) = Some scale_x \<Longrightarrow>
   quot (svg_height - 2 * margin) (maxy - miny) = Some scale_y \<Longrightarrow>
   canvas_scale quot (minx, miny, maxx, maxy) = Some (min scale_x scale_y)"
  by (simp add: canvas_scale_def Let_def)

text \<open>
  Claim C2, as stated, fails. A frame whose only feature is a horizontal line has a
  bounding box of height zero; \<^verbatim>\<open>export_to_svg\<close> prints one line and returns, and no
  map document is produced.
\<close>

theorem degenerate_extent_no_fallback:
  "export_to_svg vertex_mean exact_quotient (\<lambda>c. ''nan'') (\<lambda>p. None)
     \<lparr>crs = None, columns = [],
      features = [\<lparr>geometry = Geom (LineString [(0, 0), (1, 0)]), attrs = []\<rparr>]\<rparr>
     ''out.svg'' ''traffic''
   = (\<lparr>crs = None, columns = [],
       features = [\<lparr>geometry = Geom (LineString [(0, 0), (1, 0)]), attrs = []\<rparr>]\<rparr>,
      [Print ''Data range too small, cannot generate valid SVG.''])
   \<and> html_exports (snd (export_to_svg vertex_mean exact_quotient (\<lambda>c. ''nan'') (\<lambda>p. None)
     \<lparr>crs = None, columns = [],
      features = [\<lparr>geometry = Geom (LineString [(0, 0), (1, 0)]), attrs = []\<rparr>]\<rparr>
     ''out.svg'' ''traffic'')) = []"
  by (simp add: export_to_svg_def svg_try_def keep_valid_types_def type_isin_def
      geometry_type_def geometries_def total_bounds_def html_exports_def)

text \<open>
  Claim C2, amended. When the bounding box of the drawable geometry has zero width or zero
  height, rasterisation is aborted without an exception: \<^verbatim>\<open>export_to_svg\<close> prints
  ``Data range too small, cannot generate valid SVG.'' and returns normally. It saves no
  drawing and does not call the map export, so no output file is produced, and the
  caller's frame is left as it was.
\<close>

theorem degenerate_extent_aborts:
  assumes "fails AtTypeFilter = None" and "fails AtBounds = None"
    and "features (keep_valid_types gdf) \<noteq> []"
    and "total_bounds (geometries (keep_valid_types gdf)) = Some (minx, miny, maxx, maxy)"
    and "maxx - minx = 0 \<or> maxy - miny = 0"
  shows "export_to_svg centroid quot to_str fails gdf output_path data_type =
           (gdf, [Print ''Data range too small, cannot generate valid SVG.''])
         \<and> svg_exports (snd (export_to_svg centroid quot to_str fails gdf output_path data_type)) = []
         \<and> html_exports (snd (export_to_svg centroid quot to_str fails gdf output_path data_type)) = []"
proof -
  have "svg_try centroid quot fails gdf output_path data_type =
          Inr [Print ''Data range too small, cannot generate valid SVG.'']"
    using assms by (simp add: svg_try_def Let_def)
  then show ?thesis
    by (simp add: export_to_svg_def svg_exports_def html_exports_def)
qed

theorem degenerate_extent_aborts_witness:
  "export_to_svg vertex_mean exact_quotient (\<lambda>c. ''nan'') (\<lambda>p. None)
     \<lparr>crs = None, columns = [],
      features = [\<lparr>geometry = Geom (Polygon [(3, 0), (3, 2), (3, 5), (3, 0)] []), attrs = []\<rparr>,
                  \<lparr>geometry = Geom (Point (7, 7)), attrs = []\<rparr>]\<rparr>
     ''walk.svg'' ''pedestrian''
   = (\<lparr>crs = None, columns = [],
       features = [\<lparr>geometry = Geom (Polygon [(3, 0), (3, 2), (3, 5), (3, 0)] []), attrs = []\<rparr>,
                   \<lparr>geometry = Geom (Point (7, 7)), attrs = []\<rparr>]\<rparr>,
      [Print ''Data range too small, cannot generate valid SVG.''])"
  using degenerate_extent_aborts
    [where fails = "\<lambda>p. None"
      and gdf = "\<lparr>crs = None, columns = [],
      features = [\<lparr>geometry = Geom (Polygon [(3, 0), (3, 2), (3, 5), (3, 0)] []), attrs = []\<rparr>,
                  \<lparr>geometry = Geom (Point (7, 7)), attrs = []\<rparr>]\<rparr>"
      and minx = 3 and miny = 0 and maxx = 3 and maxy = 5 and centroid = vertex_mean and quot = exact_quotient
      and to_str = "\<lambda>c. ''nan''" and output_path = "''walk.svg''"
      and data_type = "''pedestrian''"]
  by (simp add: keep_valid_types_def type_isin_def geometry_type_def geometries_def
      total_bounds_def)

text \<open>
  Claim C3, as stated, fails. For the line from (0, 0) to (2, 1), whose ends are the
  lower left and the upper right corner of the bounding box, the scale is
  min (920 / 2) (920 / 1) = 460; the lower left corner is drawn at (40, 500), which is not
  (margin, canvas height - margin) = (40, 960).
\<close>

theorem corners_not_at_canvas_corners:
  "snd (export_to_svg vertex_mean exact_quotient (\<lambda>c. ''nan'') (\<lambda>p. None)
     \<lparr>crs = None, columns = [],
      features = [\<lparr>geometry = Geom (LineString [(0, 0), (2, 1)]), attrs = []\<rparr>]\<rparr>
     ''out.svg'' ''traffic'')
   = [SvgFile ''out.svg'' 1 (Drawing [[(40, 500), (960, 40)]]),
      Print ''SVG file generated: out.svg'']
   \<and> (40, 500) \<noteq> (margin, svg_height - margin)"
  by (simp add: export_to_svg_def svg_try_def keep_valid_types_def type_isin_def
      geometry_type_def geometries_def total_bounds_def svg_spacing_def svg_save_def
      render_def canvas_scale_def exact_quotient_def svg_width_def svg_height_def margin_def
      transform_coords_def line_polylines_def)

text \<open>
  Claim C3, amended. When a drawing is saved, let (minX, minY, maxX, maxY) be the bounds
  of the geometry as drawn (for pedestrian data, after the spacing adjustment), and let
  the two quotients (canvasWidth - 2 * margin) / extentWidth and
  (canvasHeight - 2 * margin) / extentHeight, as the float division gives them, be finite.
  Every coordinate (x, y) of that geometry is drawn at
  ((x - minX) * scale + margin, (maxY - y) * scale + margin), scale being the smaller of
  the two quotients. Of the four corners of the bounding box only (minX, maxY) has a fixed
  place, (margin, margin); the others are drawn at the margin plus the extent times the
  scale: (minX, minY) at (margin, extentHeight * scale + margin), (maxX, maxY) at
  (extentWidth * scale + margin, margin) and (maxX, minY) at
  (extentWidth * scale + margin, extentHeight * scale + margin).
\<close>

theorem svg_coordinate_mapping:
  assumes "\<And>p. fails p = None"
    and "features (keep_valid_types gdf) \<noteq> []"
    and "total_bounds (geometries (keep_valid_types gdf)) = Some (bminx, bminy, bmaxx, bmaxy)"
    and "bmaxx - bminx \<noteq> 0" and "bmaxy - bminy \<noteq> 0"
    and "total_bounds (drawn_geometries centroid data_type gdf) = Some (minx, miny, maxx, maxy)"
    and "quot (svg_width - 2 * margin) (maxx - minx) = Some scale_x"
    and "quot (svg_height - 2 * margin) (maxy - miny) = Some scale_y"
    and "scale = min scale_x scale_y"
  shows "snd (export_to_svg centroid quot to_str fails gdf output_path data_type) =
           [SvgFile output_path (if data_type = ''pedestrian'' then 2 else 1)
              (Drawing (concat (map (draw_geom (\<lambda>p. ((fst p - minx) * scale + margin,
                                                      (maxy - snd p) * scale + margin)))
                                  (drawn_geometries centroid data_type gdf)))),
            Print (''SVG file generated: '' @ output_path)]
         \<and> transform_coords minx maxy scale (minx, maxy) = (margin, margin)
         \<and> transform_coords minx maxy scale (minx, miny) = (margin, (maxy - miny) * scale + margin)
         \<and> transform_coords minx maxy scale (maxx, maxy) = ((maxx - minx) * scale + margin, margin)
         \<and> transform_coords minx maxy scale (maxx, miny) =
             ((maxx - minx) * scale + margin, (maxy - miny) * scale + margin)"
proof -
  have t: "transform_coords minx maxy scale =
             (\<lambda>p. ((fst p - minx) * scale + margin, (maxy - snd p) * scale + margin))"
    by (rule ext) (simp add: transform_coords_def)
  have "svg_try centroid quot fails gdf output_path data_type =
     Inr [SvgFile output_path (if data_type = ''pedestrian'' then 2 else 1)
            (render (Some (minx, miny, maxx, maxy)) (Some scale)
                    (drawn_geometries centroid data_type gdf)),
          Print (''SVG file generated: '' @ output_path)]"
    using svg_try_saves [OF assms(1-5), where centroid = centroid and quot = quot
        and output_path = output_path and data_type = data_type]
      canvas_scale_finite [OF assms(7,8)] assms(6,9)
    by simp
  then have drawing: "snd (export_to_svg centroid quot to_str fails gdf output_path data_type) =
           [SvgFile output_path (if data_type = ''pedestrian'' then 2 else 1)
              (Drawing (concat (map (draw_geom (\<lambda>p. ((fst p - minx) * scale + margin,
                                                      (maxy - snd p) * scale + margin)))
                                  (drawn_geometries centroid data_type gdf)))),
            Print (''SVG file generated: '' @ output_path)]"
    by (simp add: export_to_svg_def render_def t)
  have corners: "transform_coords minx maxy scale (minx, maxy) = (margin, margin)"
    "transform_coords minx maxy scale (minx, miny) = (margin, (maxy - miny) * scale + margin)"
    "transform_coords minx maxy scale (maxx, maxy) = ((maxx - minx) * scale + margin, margin)"
    "transform_coords minx maxy scale (maxx, miny) =
             ((maxx - minx) * scale + margin, (maxy - miny) * scale + margin)"
    by (simp_all add: transform_coords_def)
  show ?thesis
    using drawing corners by blast
qed

theorem svg_coordinate_mapping_witness:
  "snd (export_to_svg vertex_mean exact_quotient (\<lambda>c. ''nan'') (\<lambda>p. None)
     \<lparr>crs = None, columns = [],
      features = [\<lparr>geometry = Geom (LineString [(1, 1), (5, 3)]), attrs = []\<rparr>,
                  \<lparr>geometry = Geom (LineString [(1, 3), (3, 2)]), attrs = []\<rparr>]\<rparr>
     ''roads.svg'' ''traffic'')
   = [SvgFile ''roads.svg'' 1 (Drawing [[(40, 500), (960, 40)], [(40, 40), (500, 270)]]),
      Print ''SVG file generated: roads.svg'']"
  using svg_coordinate_mapping
    [where fails = "\<lambda>p. None"
      and gdf = "\<lparr>crs = None, columns = [],
      features = [\<lparr>geometry = Geom (LineString [(1, 1), (5, 3)]), attrs = []\<rparr>,
                  \<lparr>geometry = Geom (LineString [(1, 3), (3, 2)]), attrs = []\<rparr>]\<rparr>"
      and bminx = 1 and bminy = 1 and bmaxx = 5 and bmaxy = 3 and centroid = vertex_mean
      and quot = exact_quotient and data_type = "''traffic''"
      and minx = 1 and miny = 1 and maxx = 5 and maxy = 3
      and scale_x = 230 and scale_y = 460 and scale = 230
      and to_str = "\<lambda>c. ''nan''" and output_path = "''roads.svg''"]
  by (simp add: keep_valid_types_def type_isin_def geometry_type_def geometries_def
      total_bounds_def drawn_geometries_def exact_quotient_def svg_width_def svg_height_def
      margin_def line_polylines_def)

subsection \<open>The spacing adjustment\<close>



text \<open>
  Claim C5. The spacing adjustment translates every feature by (its centroid minus the
  global centroid) times the ratio, where the global centroid is the sum of the features'
  centroids divided by their number. \<^verbatim>\<open>export_to_svg\<close> applies it to pedestrian data
  with ratio 0.2, and the drawing it saves is made from the adjusted geometry with the
  bounds and the scale computed from that adjusted geometry.
\<close>

theorem pedestrian_spacing_then_transform:
  assumes "\<And>p. fails p = None"
    and "features (keep_valid_types gdf) \<noteq> []"
    and "total_bounds (geometries (keep_valid_types gdf)) = Some (bminx, bminy, bmaxx, bmaxy)"
    and "bmaxx - bminx \<noteq> 0" and "bmaxy - bminy \<noteq> 0"
    and "adjusted = increase_spacing centroid 0.2 (geometries (keep_valid_types gdf))"
  shows "increase_spacing centroid r geoms =
           map (\<lambda>g. translate g
                  ((fst (centroid g)
                    - sum_list (map (\<lambda>h. fst (centroid h)) geoms) / real (length geoms)) * r)
                  ((snd (centroid g)
                    - sum_list (map (\<lambda>h. snd (centroid h)) geoms) / real (length geoms)) * r))
             geoms
         \<and> snd (export_to_svg centroid quot to_str fails gdf output_path ''pedestrian'') =
             [SvgFile output_path 2
                (render (total_bounds adjusted)
                        (case total_bounds adjusted of None \<Rightarrow> None | Some b \<Rightarrow> canvas_scale quot b)
                        adjusted),
              Print (''SVG file generated: '' @ output_path)]"
proof -
  have shape: "increase_spacing centroid r geoms =
           map (\<lambda>g. translate g
                  ((fst (centroid g)
                    - sum_list (map (\<lambda>h. fst (centroid h)) geoms) / real (length geoms)) * r)
                  ((snd (centroid g)
                    - sum_list (map (\<lambda>h. snd (centroid h)) geoms) / real (length geoms)) * r))
             geoms"
    by (simp add: increase_spacing_map global_centroid_def mean_def comp_def)
  have "drawn_geometries centroid ''pedestrian'' gdf = adjusted"
    by (simp add: drawn_geometries_def assms(6))
  then have "svg_try centroid quot fails gdf output_path ''pedestrian'' =
     Inr [SvgFile output_path 2
            (render (total_bounds adjusted)
                    (case total_bounds adjusted of None \<Rightarrow> None | Some b \<Rightarrow> canvas_scale quot b)
                    adjusted),
          Print (''SVG file generated: '' @ output_path)]"
    using svg_try_saves [OF assms(1-5), where centroid = centroid and output_path = output_path
        and data_type = "''pedestrian''"]
    by simp
  then show ?thesis
    using shape by (simp add: export_to_svg_def)
qed

theorem pedestrian_spacing_then_transform_witness:
  "snd (export_to_svg vertex_mean exact_quotient (\<lambda>c. ''nan'') (\<lambda>p. None)
     \<lparr>crs = None, columns = [],
      features = [\<lparr>geometry = Geom (Polygon [(0, 0), (2, 0), (2, 2), (0, 2), (0, 0)] []), attrs = []\<rparr>,
                  \<lparr>geometry = Geom (Polygon [(4, 4), (6, 4), (6, 6), (4, 6), (4, 4)] []), attrs = []\<rparr>]\<rparr>
     ''walk.svg'' ''pedestrian'')
   = [SvgFile ''walk.svg'' 2
        (render (Some (- (2 / 5), - (2 / 5), 32 / 5, 32 / 5)) (Some (2300 / 17))
           [Polygon [(- (2 / 5), - (2 / 5)), (8 / 5, - (2 / 5)), (8 / 5, 8 / 5), (- (2 / 5), 8 / 5),
                     (- (2 / 5), - (2 / 5))] [],
            Polygon [(22 / 5, 22 / 5), (32 / 5, 22 / 5), (32 / 5, 32 / 5), (22 / 5, 32 / 5),
                     (22 / 5, 22 / 5)] []]),
      Print ''SVG file generated: walk.svg'']"
  using pedestrian_spacing_then_transform
    [where fails = "\<lambda>p. None"
      and gdf = "\<lparr>crs = None, columns = [],
      features = [\<lparr>geometry = Geom (Polygon [(0, 0), (2, 0), (2, 2), (0, 2), (0, 0)] []), attrs = []\<rparr>,
                  \<lparr>geometry = Geom (Polygon [(4, 4), (6, 4), (6, 6), (4, 6), (4, 4)] []), attrs = []\<rparr>]\<rparr>"
      and bminx = 0 and bminy = 0 and bmaxx = 6 and bmaxy = 6 and centroid = vertex_mean and quot = exact_quotient
      and adjusted = "[Polygon [(- (2 / 5), - (2 / 5)), (8 / 5, - (2 / 5)), (8 / 5, 8 / 5), (- (2 / 5), 8 / 5),
                     (- (2 / 5), - (2 / 5))] [],
            Polygon [(22 / 5, 22 / 5), (32 / 5, 22 / 5), (32 / 5, 32 / 5), (22 / 5, 32 / 5),
                     (22 / 5, 22 / 5)] []]"
      and to_str = "\<lambda>c. ''nan''" and output_path = "''walk.svg''"]
  by (simp add: keep_valid_types_def type_isin_def geometry_type_def geometries_def
      total_bounds_def increase_spacing_def vertex_mean_def mean_def shift_def
      canvas_scale_def exact_quotient_def svg_width_def svg_height_def margin_def)






subsection \<open>The rasteriser: the handler\<close>

text \<open>
  Whatever is raised in the \<^verbatim>\<open>try\<close> block is caught: two lines are printed and the
  frame the local variable \<^verbatim>\<open>gdf\<close> names at that moment goes to the map export.
\<close>

lemma export_to_svg_handler:
  assumes "svg_try centroid quot fails gdf output_path data_type = Inl (e, local_gdf, same_object)"
  shows "snd (export_to_svg centroid quot to_str fails gdf output_path data_type) =
           [Print (''Warning: Error generating SVG file: '' @ e),
            Print ''Will use HTML format instead.'',
            HtmlFile (replace_svg_html output_path)
              (stringified to_str (length (columns local_gdf)) local_gdf),
            OpenBrowser (replace_svg_html output_path)]"
  using assms by (simp add: export_to_svg_def export_to_html_eq Let_def)

lemma svg_try_save_fault:
  assumes "fails AtTypeFilter = None" and "fails AtBounds = None" and "fails AtSpacing = None"
    and "fails AtDrawing = None" and "fails AtSave = Some e"
    and "features (keep_valid_types gdf) \<noteq> []"
    and "total_bounds (geometries (keep_valid_types gdf)) = Some (bminx, bminy, bmaxx, bmaxy)"
    and "bmaxx - bminx \<noteq> 0" and "bmaxy - bminy \<noteq> 0"
  shows "svg_try centroid quot fails gdf output_path data_type =
           Inl (e, if data_type = ''pedestrian''
                   then assign_geometry (keep_valid_types gdf)
                          (increase_spacing centroid 0.2 (geometries (keep_valid_types gdf)))
                   else keep_valid_types gdf, False)"
  using assms by (simp add: svg_try_def svg_spacing_def svg_save_def Let_def)

text \<open>
  Claim C7 at a concrete input: pedestrian data of two squares (shapely's centroids of
  which are (1, 1) and (5, 5)), and saving the drawing raises. The failure is caught and
  logged and a map document is written, but the frame exported is not the one passed in:
  its squares are the ones moved apart by the spacing adjustment.
\<close>

theorem fallback_exports_adjusted_geometry:
  "snd (export_to_svg
         (\<lambda>g. if g = Polygon [(0, 0), (2, 0), (2, 2), (0, 2), (0, 0)] [] then (1, 1) else (5, 5))
         exact_quotient
         (\<lambda>c. case c of Str s \<Rightarrow> s | _ \<Rightarrow> ''nan'')
         (\<lambda>p. if p = AtSave then Some ''Permission denied'' else None)
         \<lparr>crs = None, columns = [(''name'', ''object'')],
          features =
            [\<lparr>geometry = Geom (Polygon [(0, 0), (2, 0), (2, 2), (0, 2), (0, 0)] []),
               attrs = [Str ''north'']\<rparr>,
             \<lparr>geometry = Geom (Polygon [(4, 4), (6, 4), (6, 6), (4, 6), (4, 4)] []),
               attrs = [Str ''south'']\<rparr>]\<rparr>
         ''walk.svg'' ''pedestrian'')
   = [Print ''Warning: Error generating SVG file: Permission denied'',
      Print ''Will use HTML format instead.'',
      HtmlFile ''walk.html''
        \<lparr>crs = None, columns = [(''name'', ''object'')],
         features =
           [\<lparr>geometry = Geom (Polygon [(- (2 / 5), - (2 / 5)), (8 / 5, - (2 / 5)), (8 / 5, 8 / 5),
                                         (- (2 / 5), 8 / 5), (- (2 / 5), - (2 / 5))] []),
              attrs = [Str ''north'']\<rparr>,
            \<lparr>geometry = Geom (Polygon [(22 / 5, 22 / 5), (32 / 5, 22 / 5), (32 / 5, 32 / 5),
                                         (22 / 5, 32 / 5), (22 / 5, 22 / 5)] []),
              attrs = [Str ''south'']\<rparr>]\<rparr>,
      OpenBrowser ''walk.html'']"
proof -
  let ?c = "\<lambda>g. if g = Polygon [(0, 0), (2, 0), (2, 2), (0, 2), (0, 0)] [] then (1, 1) else (5, 5 :: real)"
  let ?fails = "\<lambda>p. if p = AtSave then Some ''Permission denied'' else None"
  let ?gdf = "\<lparr>crs = None, columns = [(''name'', ''object'')],
          features =
            [\<lparr>geometry = Geom (Polygon [(0, 0), (2, 0), (2, 2), (0, 2), (0, 0)] []),
               attrs = [Str ''north'']\<rparr>,
             \<lparr>geometry = Geom (Polygon [(4, 4), (6, 4), (6, 6), (4, 6), (4, 4)] []),
               attrs = [Str ''south'']\<rparr>]\<rparr>"
  have valid: "keep_valid_types ?gdf = ?gdf"
    by (simp add: keep_valid_types_def type_isin_def geometry_type_def)
  have geoms: "geometries ?gdf =
      [Polygon [(0, 0), (2, 0), (2, 2), (0, 2), (0, 0)] [],
       Polygon [(4, 4), (6, 4), (6, 6), (4, 6), (4, 4)] []]"
    by (simp add: geometries_def)
  have bounds: "total_bounds (geometries ?gdf) = Some (0, 0, 6, 6)"
    unfolding geoms by (simp add: total_bounds_def)
  have spread: "increase_spacing ?c 0.2 (geometries ?gdf) =
      [Polygon [(- (2 / 5), - (2 / 5)), (8 / 5, - (2 / 5)), (8 / 5, 8 / 5),
                (- (2 / 5), 8 / 5), (- (2 / 5), - (2 / 5))] [],
       Polygon [(22 / 5, 22 / 5), (32 / 5, 22 / 5), (32 / 5, 32 / 5),
                (22 / 5, 32 / 5), (22 / 5, 22 / 5)] []]"
    unfolding geoms by (simp add: increase_spacing_def mean_def shift_def)
  have "svg_try ?c exact_quotient ?fails ?gdf ''walk.svg'' ''pedestrian'' =
          Inl (''Permission denied'',
               assign_geometry ?gdf (increase_spacing ?c 0.2 (geometries ?gdf)), False)"
    using svg_try_save_fault [where fails = ?fails and gdf = ?gdf and e = "''Permission denied''"
        and bminx = 0 and bminy = 0 and bmaxx = 6 and bmaxy = 6 and centroid = ?c and quot = exact_quotient
        and output_path = "''walk.svg''" and data_type = "''pedestrian''"]
    unfolding valid bounds by simp
  then have "snd (export_to_svg ?c exact_quotient (\<lambda>c. case c of Str s \<Rightarrow> s | _ \<Rightarrow> ''nan'') ?fails ?gdf
                    ''walk.svg'' ''pedestrian'') =
           [Print (''Warning: Error generating SVG file: '' @ ''Permission denied''),
            Print ''Will use HTML format instead.'',
            HtmlFile (replace_svg_html ''walk.svg'')
              (stringified (\<lambda>c. case c of Str s \<Rightarrow> s | _ \<Rightarrow> ''nan'')
                 (length (columns (assign_geometry ?gdf (increase_spacing ?c 0.2 (geometries ?gdf)))))
                 (assign_geometry ?gdf (increase_spacing ?c 0.2 (geometries ?gdf)))),
            OpenBrowser (replace_svg_html ''walk.svg'')]"
    by (rule export_to_svg_handler)
  then show ?thesis
    unfolding spread
    by (simp add: assign_geometry_def stringified_def stringified_columns_def
        stringified_attrs_def needs_str_def startswith_def)
qed

subsection \<open>extract\_street\_data as a whole\<close>

text \<open>
  When the data file exists, one of the three geocoding attempts finds the address and the
  region can be built, the function returns the loaded frame filtered by that region.
\<close>

lemma extract_street_data_filters:
  assumes "read_file (if data_type = ''traffic'' then centerline_path else sidewalk_path) = Some gdf"
    and "geocode_loop (geocode address) [0..<3] = Some pt"
    and "search_region project (crs gdf) pt radius_miles = Inr b"
  shows "extract_street_data read_file geocode project intersects address radius_miles data_type =
           Inr (spatial_filter intersects gdf b)"
  using assms by (simp add: extract_street_data_def)

end
